theory Spec2Isabelle
  imports Main
begin

section \<open>The rteval parser's PostgreSQL layer (server/parser/pgsql.c)\<close>

text \<open>
  The functions of pgsql.c talk to three collaborators that are not part of the file:
  libpq (the PostgreSQL client library), the pthread mutex that guards the submission
  queue, and the XML helpers of xmlparser.c. The embedding passes them as one record of
  operations over a state \<open>'s\<close> (the connection together with whatever the collaborators
  remember), so a theorem stated for an arbitrary record \<open>E\<close> holds for every behaviour
  of the database. Each function of pgsql.c takes the state and returns, with its C return
  value, the state it leaves.
\<close>

subsection \<open>libpq results\<close>

datatype ExecStatusType =
    PGRES_EMPTY_QUERY
  | PGRES_COMMAND_OK
  | PGRES_TUPLES_OK
  | PGRES_BAD_RESPONSE
  | PGRES_NONFATAL_ERROR
  | PGRES_FATAL_ERROR

text \<open>
  A \<open>PGresult\<close>: its status, its rows (every column as text, as \<open>PQgetvalue\<close> returns
  it) and the OID of the inserted row (\<open>InvalidOid\<close> is 0). A \<open>PGresult *\<close> is a
  \<open>PGresult option\<close>, \<open>None\<close> being the NULL pointer.
\<close>

record PGresult =
  resStatus :: ExecStatusType
  tuples :: "string list list"
  oidValue :: nat

definition PQresultStatus :: "PGresult option \<Rightarrow> ExecStatusType" where
  "PQresultStatus res = (case res of None \<Rightarrow> PGRES_FATAL_ERROR | Some r \<Rightarrow> resStatus r)"

definition PQntuples :: "PGresult option \<Rightarrow> nat" where
  "PQntuples res = (case res of None \<Rightarrow> 0 | Some r \<Rightarrow> length (tuples r))"

text \<open>\<open>PQgetvalue\<close> returns NULL when the row or the column is out of range.\<close>

definition PQgetvalue :: "PGresult option \<Rightarrow> nat \<Rightarrow> nat \<Rightarrow> string option" where
  "PQgetvalue res i j =
     (case res of
        None \<Rightarrow> None
      | Some r \<Rightarrow>
          if i < length (tuples r) \<and> j < length (tuples r ! i)
          then Some (tuples r ! i ! j) else None)"

definition PQoidValue :: "PGresult option \<Rightarrow> nat" where
  "PQoidValue res = (case res of None \<Rightarrow> 0 | Some r \<Rightarrow> oidValue r)"

subsection \<open>Status codes and SQL statements\<close>

text \<open>
  The \<open>STAT_*\<close> macros come from a header that is not among the sources, so their
  numbers are unknown. The \<open>int status\<close> argument is one of the ten macros (they are
  the labels of one \<open>switch\<close>, hence distinct) or some other integer.
\<close>

datatype status =
    STAT_NEW
  | STAT_ASSIGNED
  | STAT_INPROG
  | STAT_SUCCESS
  | STAT_UNKNFAIL
  | STAT_XMLFAIL
  | STAT_SYSREG
  | STAT_GENDB
  | STAT_RTEVRUNS
  | STAT_CYCLIC
  | STAT_unlisted int

datatype stamp = no_stamp | parsestart | parseend

text \<open>
  The statement texts that pgsql.c builds with \<open>snprintf\<close> and \<open>strcat\<close>, each
  represented by its shape and the arguments printed into it:
  \<^item> \<open>SELECT submid, filename FROM submissionqueue WHERE status = %i ORDER BY submid LIMIT 1\<close>
  \<^item> \<open>UPDATE submissionqueue SET status = %i [, parsestart = NOW() | , parseend = NOW()] WHERE submid = %i\<close>
  \<^item> \<open>SELECT syskey FROM systems WHERE sysid = '%.256s'\<close>
  \<^item> \<open>SELECT syskey FROM systems_hostname WHERE hostname='%.256s' AND ipaddr='%.64s'\<close>
  \<^item> \<open>INSERT INTO table (f1,...,fn) VALUES ($1,...,$n) [RETURNING key]\<close>
\<close>

datatype sql =
    SELECT_submissionqueue status
  | UPDATE_submissionqueue status stamp nat
  | SELECT_systems string
  | SELECT_systems_hostname string string
  | INSERT_INTO string "string list" nat "string option"

subsection \<open>The sqldata document\<close>

datatype vkind = Plain | Blob | Hashed string

text \<open>
  \<open><field fid="...">name</field>\<close>: \<open>fid\<close> is what \<open>atoi_nullsafe\<close> makes of the
  attribute. \<open><value fid="..." [type=...] [hash=...]>content</value>\<close>: \<open>vfid\<close> is
  \<open>None\<close> when the attribute is missing, else what \<open>atoi_nullsafe\<close> makes of it.
  Only element nodes are kept: the loops of \<open>pgsql_INSERT\<close> skip every other node.
\<close>

record xfield =
  fid :: int
  fname :: string

record xvalue =
  vfid :: "int option"
  vkind :: vkind
  vcontent :: string

record sqldoc =
  root :: "string option"
  table_attr :: "string option"
  key_attr :: "string option"
  fields_node :: "xfield list option"
  records_node :: "xvalue list list option"

record parseParams =
  prm_table :: string
  prm_syskey :: int
  prm_report_filename :: "string option"
  prm_rterid :: int

subsection \<open>The collaborators\<close>

record ('s, 'x) env =
  PQexec :: "'s \<Rightarrow> sql \<Rightarrow> PGresult option \<times> 's"
  PQprepare :: "'s \<Rightarrow> sql \<Rightarrow> nat \<Rightarrow> PGresult option \<times> 's"
  PQexecPrepared :: "'s \<Rightarrow> nat \<Rightarrow> string option list \<Rightarrow> PGresult option \<times> 's"
  pthread_mutex_lock :: "'s \<Rightarrow> 's"
  pthread_mutex_unlock :: "'s \<Rightarrow> 's"
  sqldataExtractContent :: "xvalue \<Rightarrow> string option"
  parseToSQLdata :: "'x \<Rightarrow> parseParams \<Rightarrow> sqldoc option"
  sqldataGetValue :: "sqldoc \<Rightarrow> string \<Rightarrow> nat \<Rightarrow> string option"
  sqldataGetHostInfo :: "'x \<Rightarrow> int \<Rightarrow> sqldoc option \<times> string option \<times> string option"

text \<open>
  What C leaves undefined is a result of its own: a write past the end of \<open>value_ar\<close>,
  and a NULL pointer printed with \<open>%s\<close>.
\<close>

datatype fault = HeapOverflow | NullString

subsection \<open>C library and eurephia helpers\<close>

definition isspace :: "char \<Rightarrow> bool" where
  "isspace c = ((of_char c :: nat) = 32 \<or> (9 \<le> (of_char c :: nat) \<and> (of_char c :: nat) \<le> 13))"

definition isdigit :: "char \<Rightarrow> bool" where
  "isdigit c = (48 \<le> (of_char c :: nat) \<and> (of_char c :: nat) \<le> 57)"

fun digits :: "int \<Rightarrow> string \<Rightarrow> int" where
  "digits acc [] = acc"
| "digits acc (c # cs) =
     (if isdigit c then digits (acc * 10 + (of_char c - 48)) cs else acc)"

text \<open>
  \<open>strtol\<close> in base 10: white space, an optional sign, then digits up to the first other
  character; a value outside \<open>long\<close> (64 bits) is replaced by the nearest bound.
\<close>

definition strtol :: "string \<Rightarrow> int" where
  "strtol s =
     max (- 9223372036854775808) (min 9223372036854775807
       (case dropWhile isspace s of
          [] \<Rightarrow> 0
        | c # cs \<Rightarrow>
            if c = CHR ''-'' then - digits 0 cs
            else if c = CHR ''+'' then digits 0 cs
            else digits 0 (c # cs)))"

text \<open>The conversion of a \<open>long\<close> to the 32-bit \<open>int\<close>: the low 32 bits, signed.\<close>

definition int_of_long :: "int \<Rightarrow> int" where
  "int_of_long v = (v + 2147483648) mod 4294967296 - 2147483648"

text \<open>
  \<open>atoi\<close> returns an \<open>int\<close>. For a number that fits, it is the number; beyond, C
  leaves the result undefined and the C library computes \<open>(int) strtol(s, NULL, 10)\<close>,
  which is what the embedding takes.
\<close>

definition atoi :: "string \<Rightarrow> int" where
  "atoi s = int_of_long (strtol s)"

definition atoi_nullsafe :: "string option \<Rightarrow> int" where
  "atoi_nullsafe str = (case str of None \<Rightarrow> 0 | Some s \<Rightarrow> atoi s)"

text \<open>\<open>snprintf(oid, 30, "%ld%c", ...)\<close>: the decimal digits of an OID.\<close>

function decimal :: "nat \<Rightarrow> string" where
  "decimal n =
     (if n < 10 then [''0123456789'' ! n]
      else decimal (n div 10) @ [''0123456789'' ! (n mod 10)])"
  by pat_completeness auto
termination
  by (relation "measure (\<lambda>n. n)") auto

declare decimal.simps [simp del]

text \<open>
  Modelled from the spec: eurephia_values.c is not among the sources. The spec has the
  engine append one result per record to a result list, under a name; so an
  \<open>eurephiaVALUES\<close> chain is the list of its (key, value) entries in the order they were
  added, \<open>eCount\<close> is their number and \<open>->val\<close> reads the first entry's value.
\<close>

type_synonym eurephiaVALUES = "(string \<times> string option) list"

definition eCreate_value_space :: eurephiaVALUES where
  "eCreate_value_space = []"

definition eAdd_value :: "eurephiaVALUES \<Rightarrow> string \<Rightarrow> string option \<Rightarrow> eurephiaVALUES" where
  "eAdd_value vls k v = vls @ [(k, v)]"

definition eCount :: "eurephiaVALUES \<Rightarrow> nat" where
  "eCount vls = length vls"

definition head_val :: "eurephiaVALUES \<Rightarrow> string option" where
  "head_val vls = (case vls of [] \<Rightarrow> None | (k, v) # _ \<Rightarrow> v)"

subsection \<open>pgsql_INSERT\<close>

text \<open>
  The loop over the \<open><value>\<close> nodes of one \<open><record>\<close>. \<open>field_idx\<close> has
  \<open>fieldcnt + 1\<close> entries (\<open>calloc(fieldcnt+1, ...)\<close>), \<open>value_ar\<close> has \<open>fieldcnt\<close>.
  The guard is \<open>i > fieldcnt\<close>, so \<open>field_idx[i]\<close> is always inside its array; the
  write \<open>value_ar[field_idx[i]]\<close> is inside \<open>value_ar\<close> only if \<open>field_idx[i] < fieldcnt\<close>.
\<close>

fun record_values ::
  "(xvalue \<Rightarrow> string option) \<Rightarrow> nat list \<Rightarrow> nat \<Rightarrow> nat \<Rightarrow> xvalue list \<Rightarrow>
   string option list \<Rightarrow> fault + string option list" where
  "record_values extract field_idx fieldcnt i [] value_ar = Inr value_ar"
| "record_values extract field_idx fieldcnt i (val_n # rest) value_ar =
     (if i > fieldcnt then Inr value_ar
      else if vfid val_n = None \<or> the (vfid val_n) < 0
        then record_values extract field_idx fieldcnt i rest value_ar
      else if field_idx ! i < fieldcnt
        then record_values extract field_idx fieldcnt (i + 1) rest
               (value_ar[field_idx ! i := extract val_n])
      else Inl HeapOverflow)"

definition expected_status :: "string option \<Rightarrow> ExecStatusType" where
  "expected_status key = (if key \<noteq> None then PGRES_TUPLES_OK else PGRES_COMMAND_OK)"

text \<open>The entry that one successful execution adds to the result list.\<close>

definition result_entry :: "string option \<Rightarrow> PGresult option \<Rightarrow> string \<times> string option" where
  "result_entry key dbres =
     (case key of
        Some k \<Rightarrow> (k, PQgetvalue dbres 0 0)
      | None \<Rightarrow> (''oid'', Some (decimal (PQoidValue dbres))))"

text \<open>The loop over the \<open><record>\<close> nodes; \<open>res\<close> is the result list so far.\<close>

fun insert_records ::
  "('s, 'x) env \<Rightarrow> string option \<Rightarrow> nat list \<Rightarrow> nat \<Rightarrow> xvalue list list \<Rightarrow>
   eurephiaVALUES \<Rightarrow> 's \<Rightarrow> (fault + eurephiaVALUES option) \<times> 's" where
  "insert_records E key field_idx fieldcnt [] res dbc = (Inr (Some res), dbc)"
| "insert_records E key field_idx fieldcnt (ptr_n # rest) res dbc =
     (case record_values (sqldataExtractContent E) field_idx fieldcnt 0 ptr_n
             (replicate fieldcnt None) of
        Inl f \<Rightarrow> (Inl f, dbc)
      | Inr value_ar \<Rightarrow>
          (case PQexecPrepared E dbc fieldcnt value_ar of
             (dbres, dbc') \<Rightarrow>
               if PQresultStatus dbres \<noteq> expected_status key then (Inr None, dbc')
               else insert_records E key field_idx fieldcnt rest
                      (eAdd_value res (fst (result_entry key dbres))
                         (snd (result_entry key dbres))) dbc'))"

text \<open>\<open>field_idx[i] = atoi_nullsafe(fid)\<close> stores an \<open>int\<close> into an \<open>unsigned int\<close>.\<close>

definition field_index :: "xfield list \<Rightarrow> nat list" where
  "field_index fields_n = map (\<lambda>f. nat (fid f mod 4294967296)) fields_n @ [0]"

definition insert_sql :: "string \<Rightarrow> xfield list \<Rightarrow> string option \<Rightarrow> sql" where
  "insert_sql table fields_n key = INSERT_INTO table (map fname fields_n) (length fields_n) key"

definition pgsql_INSERT ::
  "('s, 'x) env \<Rightarrow> 's \<Rightarrow> sqldoc \<Rightarrow> (fault + eurephiaVALUES option) \<times> 's" where
  "pgsql_INSERT E dbc sqldoc =
     (if root sqldoc \<noteq> Some ''sqldata'' then (Inr None, dbc)
      else case table_attr sqldoc of
        None \<Rightarrow> (Inr None, dbc)
      | Some table \<Rightarrow>
         (case fields_node sqldoc of
            None \<Rightarrow> (Inr None, dbc)
          | Some fields_n \<Rightarrow>
             (case records_node sqldoc of
                None \<Rightarrow> (Inr None, dbc)
              | Some recs_n \<Rightarrow>
                 (case PQprepare E dbc (insert_sql table fields_n (key_attr sqldoc))
                         (length fields_n) of
                    (dbres, dbc') \<Rightarrow>
                      if PQresultStatus dbres \<noteq> PGRES_COMMAND_OK then (Inr None, dbc')
                      else insert_records E (key_attr sqldoc) (field_index fields_n)
                             (length fields_n) recs_n eCreate_value_space dbc'))))"

subsection \<open>db_update_submissionqueue\<close>

text \<open>The \<open>switch\<close>: the statement for a status, or none for \<open>STAT_NEW\<close> and \<open>default\<close>.\<close>

fun update_sql :: "nat \<Rightarrow> status \<Rightarrow> sql option" where
  "update_sql submid STAT_ASSIGNED = Some (UPDATE_submissionqueue STAT_ASSIGNED no_stamp submid)"
| "update_sql submid STAT_INPROG = Some (UPDATE_submissionqueue STAT_INPROG parsestart submid)"
| "update_sql submid STAT_SUCCESS = Some (UPDATE_submissionqueue STAT_SUCCESS parseend submid)"
| "update_sql submid STAT_UNKNFAIL = Some (UPDATE_submissionqueue STAT_UNKNFAIL parseend submid)"
| "update_sql submid STAT_XMLFAIL = Some (UPDATE_submissionqueue STAT_XMLFAIL parseend submid)"
| "update_sql submid STAT_SYSREG = Some (UPDATE_submissionqueue STAT_SYSREG parseend submid)"
| "update_sql submid STAT_GENDB = Some (UPDATE_submissionqueue STAT_GENDB parseend submid)"
| "update_sql submid STAT_RTEVRUNS = Some (UPDATE_submissionqueue STAT_RTEVRUNS parseend submid)"
| "update_sql submid STAT_CYCLIC = Some (UPDATE_submissionqueue STAT_CYCLIC parseend submid)"
| "update_sql submid (STAT_unlisted n) = None"
| "update_sql submid STAT_NEW = None"

definition db_update_submissionqueue ::
  "('s, 'x) env \<Rightarrow> 's \<Rightarrow> nat \<Rightarrow> status \<Rightarrow> int \<times> 's" where
  "db_update_submissionqueue E dbc submid st =
     (case update_sql submid st of
        None \<Rightarrow> (0, dbc)
      | Some q \<Rightarrow>
         (case PQexec E dbc q of
            (res, dbc') \<Rightarrow>
              if res = None then (- 1, dbc')
              else if PQresultStatus res \<noteq> PGRES_COMMAND_OK then (- 1, dbc')
              else (1, dbc')))"

subsection \<open>db_get_submissionqueue_job\<close>

datatype jobStatus = jbNONE | jbAVAIL

record parseJob_t =
  job_status :: jobStatus
  job_submid :: nat
  job_filename :: string

text \<open>
  The job is allocated with \<open>malloc_nullsafe\<close> (zeroed memory; the allocation is taken
  to succeed). \<open>snprintf(job->filename, 4090, "%.4090s", ...)\<close> keeps 4089 characters.
\<close>

definition db_get_submissionqueue_job ::
  "('s, 'x) env \<Rightarrow> 's \<Rightarrow> (fault + parseJob_t option) \<times> 's" where
  "db_get_submissionqueue_job E dbc =
     (case PQexec E (pthread_mutex_lock E dbc) (SELECT_submissionqueue STAT_NEW) of
        (res, s1) \<Rightarrow>
          if PQresultStatus res \<noteq> PGRES_TUPLES_OK
            then (Inr None, pthread_mutex_unlock E s1)
          else if PQntuples res = 1 then
            (case PQgetvalue res 0 1 of
               None \<Rightarrow> (Inl NullString, s1)
             | Some filename \<Rightarrow>
                (case db_update_submissionqueue E s1
                        (nat (atoi_nullsafe (PQgetvalue res 0 0) mod 4294967296))
                        STAT_ASSIGNED of
                   (rc, s2) \<Rightarrow>
                     if rc < 1 then (Inr None, pthread_mutex_unlock E s2)
                     else (Inr (Some \<lparr>job_status = jbAVAIL,
                                      job_submid =
                                        nat (atoi_nullsafe (PQgetvalue res 0 0) mod 4294967296),
                                      job_filename = take 4089 filename\<rparr>),
                           pthread_mutex_unlock E s2)))
          else (Inr (Some \<lparr>job_status = jbNONE, job_submid = 0, job_filename = []\<rparr>),
                pthread_mutex_unlock E s1))"

subsection \<open>db_register_system\<close>

text \<open>The tail shared by both branches: insert the host document, keep or drop the key.\<close>

definition register_host ::
  "('s, 'x) env \<Rightarrow> 's \<Rightarrow> sqldoc \<Rightarrow> int \<Rightarrow> (fault + int) \<times> 's" where
  "register_host E dbc hostinfo_d syskey =
     (case pgsql_INSERT E dbc hostinfo_d of
        (Inl f, dbc') \<Rightarrow> (Inl f, dbc')
      | (Inr dbdata, dbc') \<Rightarrow> (Inr (if dbdata \<noteq> None then syskey else - 1), dbc'))"

definition db_register_system ::
  "('s, 'x) env \<Rightarrow> 's \<Rightarrow> 'x \<Rightarrow> (fault + int) \<times> 's" where
  "db_register_system E dbc summaryxml =
     (case parseToSQLdata E summaryxml
             \<lparr>prm_table = ''systems'', prm_syskey = 0, prm_report_filename = None,
              prm_rterid = 0\<rparr> of
        None \<Rightarrow> (Inr (- 1), dbc)
      | Some sysinfo_d \<Rightarrow>
         (case sqldataGetValue E sysinfo_d ''sysid'' 0 of
            None \<Rightarrow> (Inr (- 1), dbc)
          | Some sysid \<Rightarrow>
             (case PQexec E dbc (SELECT_systems (take 256 sysid)) of
                (dbres, s1) \<Rightarrow>
                  if PQresultStatus dbres \<noteq> PGRES_TUPLES_OK then (Inr (- 1), s1)
                  else if PQntuples dbres = 0 then
                    (case pgsql_INSERT E s1 sysinfo_d of
                       (Inl f, s2) \<Rightarrow> (Inl f, s2)
                     | (Inr None, s2) \<Rightarrow> (Inr (- 1), s2)
                     | (Inr (Some dbdata), s2) \<Rightarrow>
                         if eCount dbdata \<noteq> 1 \<or> head_val dbdata = None then (Inr (- 1), s2)
                         else
                           (case sqldataGetHostInfo E summaryxml
                                   (atoi_nullsafe (head_val dbdata)) of
                              (None, hostname, ipaddr) \<Rightarrow> (Inr (- 1), s2)
                            | (Some hostinfo_d, hostname, ipaddr) \<Rightarrow>
                                register_host E s2 hostinfo_d
                                  (atoi_nullsafe (head_val dbdata))))
                  else if PQntuples dbres = 1 then
                    (case sqldataGetHostInfo E summaryxml
                            (atoi_nullsafe (PQgetvalue dbres 0 0)) of
                       (None, hostname, ipaddr) \<Rightarrow> (Inr (- 1), s1)
                     | (Some hostinfo_d, None, ipaddr) \<Rightarrow> (Inl NullString, s1)
                     | (Some hostinfo_d, Some hostname, None) \<Rightarrow> (Inl NullString, s1)
                     | (Some hostinfo_d, Some hostname, Some ipaddr) \<Rightarrow>
                        (case PQexec E s1
                                (SELECT_systems_hostname (take 256 hostname) (take 64 ipaddr)) of
                           (dbres2, s2) \<Rightarrow>
                             if PQresultStatus dbres2 \<noteq> PGRES_TUPLES_OK then (Inr (- 1), s2)
                             else if PQntuples dbres2 = 0 then
                               register_host E s2 hostinfo_d
                                 (atoi_nullsafe (PQgetvalue dbres 0 0))
                             else (Inr (atoi_nullsafe (PQgetvalue dbres 0 0)), s2)))
                  else (Inr (- 1), s1))))"

subsection \<open>db_register_rtevalrun\<close>

definition db_register_rtevalrun ::
  "('s, 'x) env \<Rightarrow> 's \<Rightarrow> 'x \<Rightarrow> int \<Rightarrow> string option \<Rightarrow> (fault + int) \<times> 's" where
  "db_register_rtevalrun E dbc summaryxml syskey report_fname =
     (case parseToSQLdata E summaryxml
             \<lparr>prm_table = ''rtevalruns'', prm_syskey = syskey,
              prm_report_filename = report_fname, prm_rterid = 0\<rparr> of
        None \<Rightarrow> (Inr (- 1), dbc)
      | Some rtevalrun_d \<Rightarrow>
         (case pgsql_INSERT E dbc rtevalrun_d of
            (Inl f, s1) \<Rightarrow> (Inl f, s1)
          | (Inr None, s1) \<Rightarrow> (Inr (- 1), s1)
          | (Inr (Some dbdata), s1) \<Rightarrow>
              if eCount dbdata \<noteq> 1 then (Inr (- 1), s1)
              else if atoi_nullsafe (head_val dbdata) < 1 then (Inr (- 1), s1)
              else
                (case parseToSQLdata E summaryxml
                        \<lparr>prm_table = ''rtevalruns_details'', prm_syskey = 0,
                         prm_report_filename = None,
                         prm_rterid = atoi_nullsafe (head_val dbdata)\<rparr> of
                   None \<Rightarrow> (Inr (- 1), s1)
                 | Some rtevalrundets_d \<Rightarrow>
                    (case pgsql_INSERT E s1 rtevalrundets_d of
                       (Inl f, s2) \<Rightarrow> (Inl f, s2)
                     | (Inr None, s2) \<Rightarrow> (Inr (- 1), s2)
                     | (Inr (Some dbdata2), s2) \<Rightarrow>
                         (Inr (if eCount dbdata2 \<noteq> 1 then - 1
                               else atoi_nullsafe (head_val dbdata)), s2)))))"

subsection \<open>Observing the calls\<close>

text \<open>
  \<open>logged E\<close> behaves as \<open>E\<close> and writes down, in order, every call made to libpq and
  to the mutex. The log is how "which statements were executed, and when the lock was
  held" is read off a run.
\<close>

datatype event =
    Lock
  | Unlock
  | Exec sql
  | Prepare sql nat
  | ExecPrepared nat "string option list"

definition logged :: "('s, 'x) env \<Rightarrow> ('s \<times> event list, 'x) env" where
  "logged E =
     \<lparr>PQexec = (\<lambda>(s, l) q. case PQexec E s q of (r, s') \<Rightarrow> (r, (s', l @ [Exec q]))),
      PQprepare = (\<lambda>(s, l) q n. case PQprepare E s q n of (r, s') \<Rightarrow> (r, (s', l @ [Prepare q n]))),
      PQexecPrepared = (\<lambda>(s, l) n ps.
         case PQexecPrepared E s n ps of (r, s') \<Rightarrow> (r, (s', l @ [ExecPrepared n ps]))),
      pthread_mutex_lock = (\<lambda>(s, l). (pthread_mutex_lock E s, l @ [Lock])),
      pthread_mutex_unlock = (\<lambda>(s, l). (pthread_mutex_unlock E s, l @ [Unlock])),
      sqldataExtractContent = sqldataExtractContent E,
      parseToSQLdata = parseToSQLdata E,
      sqldataGetValue = sqldataGetValue E,
      sqldataGetHostInfo = sqldataGetHostInfo E\<rparr>"

subsection \<open>Two databases to run the functions on\<close>

text \<open>
  The XML side of both: a report is what the transform yields for each request, a value's
  content is taken as it stands, and a value is looked up by the name of its field.
\<close>

type_synonym report = "parseParams \<Rightarrow> sqldoc option"

definition lookup_value :: "sqldoc \<Rightarrow> string \<Rightarrow> nat \<Rightarrow> string option" where
  "lookup_value d name n =
     (case fields_node d of
        None \<Rightarrow> None
      | Some fs \<Rightarrow>
         (case records_node d of
            None \<Rightarrow> None
          | Some rs \<Rightarrow>
             (case find (\<lambda>f. fname f = name) fs of
                None \<Rightarrow> None
              | Some f \<Rightarrow>
                  if n < length rs
                  then map_option vcontent (find (\<lambda>v. vfid v = Some (fid f)) (rs ! n))
                  else None)))"

definition host_info :: "report \<Rightarrow> int \<Rightarrow> sqldoc option \<times> string option \<times> string option" where
  "host_info x syskey =
     (case x \<lparr>prm_table = ''systems_hostname'', prm_syskey = syskey,
              prm_report_filename = None, prm_rterid = 0\<rparr> of
        None \<Rightarrow> (None, None, None)
      | Some d \<Rightarrow> (Some d, lookup_value d ''hostname'' 0, lookup_value d ''ipaddr'' 0))"

text \<open>
  The first database answers from a script: each libpq call takes the next prepared
  answer, and NULL once the script is used up.
\<close>

definition answer :: "PGresult option list \<Rightarrow> PGresult option \<times> PGresult option list" where
  "answer s = (case s of [] \<Rightarrow> (None, []) | r # rs \<Rightarrow> (r, rs))"

definition scripted :: "(PGresult option list, report) env" where
  "scripted =
     \<lparr>PQexec = (\<lambda>s q. answer s),
      PQprepare = (\<lambda>s q n. answer s),
      PQexecPrepared = (\<lambda>s n ps. answer s),
      pthread_mutex_lock = (\<lambda>s. s),
      pthread_mutex_unlock = (\<lambda>s. s),
      sqldataExtractContent = (\<lambda>v. Some (vcontent v)),
      parseToSQLdata = (\<lambda>x p. x p),
      sqldataGetValue = lookup_value,
      sqldataGetHostInfo = host_info\<rparr>"

definition ok :: "ExecStatusType \<Rightarrow> string list list \<Rightarrow> PGresult option" where
  "ok st rows = Some \<lparr>resStatus = st, tuples = rows, oidValue = 0\<rparr>"

definition failed :: "PGresult option" where
  "failed = Some \<lparr>resStatus = PGRES_FATAL_ERROR, tuples = [], oidValue = 0\<rparr>"

definition inserted :: "nat \<Rightarrow> PGresult option" where
  "inserted oid = Some \<lparr>resStatus = PGRES_COMMAND_OK, tuples = [], oidValue = oid\<rparr>"

text \<open>
  The second database keeps tables: \<open>systems\<close> (syskey, sysid), \<open>systems_hostname\<close>
  (syskey, hostname, ipaddr) and \<open>submissionqueue\<close> (submid, filename, status, parsestart
  set, parseend set), and the statement last prepared. It answers the five statements as
  PostgreSQL would on these tables; it knows no other table, it inserts into
  \<open>systems\<close> and \<open>systems_hostname\<close> only, and a host row needs all three columns.
\<close>

record pgdb =
  systems :: "(nat \<times> string) list"
  systems_hostname :: "(nat \<times> string \<times> string) list"
  submissionqueue :: "(nat \<times> string \<times> status \<times> bool \<times> bool) list"
  prepared :: "sql option"

fun first_job :: "(nat \<times> string \<times> status \<times> bool \<times> bool) list \<Rightarrow> (nat \<times> string) option" where
  "first_job [] = None"
| "first_job ((i, f, st, a, b) # rows) =
     (case first_job rows of
        None \<Rightarrow> Some (i, f)
      | Some (j, g) \<Rightarrow> if i \<le> j then Some (i, f) else Some (j, g))"

definition set_status ::
  "status \<Rightarrow> stamp \<Rightarrow> nat \<Rightarrow> nat \<times> string \<times> status \<times> bool \<times> bool \<Rightarrow>
   nat \<times> string \<times> status \<times> bool \<times> bool" where
  "set_status st t submid row =
     (case row of (i, f, old, a, b) \<Rightarrow>
        if i = submid then (i, f, st, a \<or> t = parsestart, b \<or> t = parseend) else row)"

definition pg_exec :: "pgdb \<Rightarrow> sql \<Rightarrow> PGresult option \<times> pgdb" where
  "pg_exec db q =
     (case q of
        SELECT_submissionqueue st \<Rightarrow>
          (ok PGRES_TUPLES_OK
             (case first_job (filter (\<lambda>(i, f, s, a, b). s = st) (submissionqueue db)) of
                None \<Rightarrow> []
              | Some (i, f) \<Rightarrow> [[decimal i, f]]), db)
      | UPDATE_submissionqueue st t submid \<Rightarrow>
          (ok PGRES_COMMAND_OK [],
           db\<lparr>submissionqueue := map (set_status st t submid) (submissionqueue db)\<rparr>)
      | SELECT_systems sysid \<Rightarrow>
          (ok PGRES_TUPLES_OK
             (map (\<lambda>(k, s). [decimal k]) (filter (\<lambda>(k, s). s = sysid) (systems db))), db)
      | SELECT_systems_hostname h ip \<Rightarrow>
          (ok PGRES_TUPLES_OK
             (map (\<lambda>(k, h', ip'). [decimal k])
                (filter (\<lambda>(k, h', ip'). h' = h \<and> ip' = ip) (systems_hostname db))), db)
      | INSERT_INTO t cols n key \<Rightarrow> (failed, db))"

definition pg_prepare :: "pgdb \<Rightarrow> sql \<Rightarrow> nat \<Rightarrow> PGresult option \<times> pgdb" where
  "pg_prepare db q n =
     (case q of
        INSERT_INTO t cols m key \<Rightarrow>
          if t = ''systems_hostname'' \<or> t = ''systems''
          then (ok PGRES_COMMAND_OK [], db\<lparr>prepared := Some q\<rparr>)
          else (failed, db)
      | _ \<Rightarrow> (failed, db))"

definition column :: "string list \<Rightarrow> string option list \<Rightarrow> string \<Rightarrow> string option" where
  "column cols ps c = (case map_of (zip cols ps) c of Some (Some v) \<Rightarrow> Some v | _ \<Rightarrow> None)"

text \<open>
  An INSERT into \<open>systems\<close> needs a sysid; the syskey is generated, one more than the
  largest in the table, and is what \<open>RETURNING syskey\<close> gives back.
\<close>

definition next_syskey :: "pgdb \<Rightarrow> nat" where
  "next_syskey db = Suc (fold max (map fst (systems db)) 0)"

definition insert_system ::
  "pgdb \<Rightarrow> string list \<Rightarrow> string option list \<Rightarrow> string option \<Rightarrow> PGresult option \<times> pgdb" where
  "insert_system db cols ps key =
     (case column cols ps ''sysid'' of
        None \<Rightarrow> (failed, db)
      | Some sysid \<Rightarrow>
          (case key of
             None \<Rightarrow> ok PGRES_COMMAND_OK []
           | Some c \<Rightarrow>
               ok PGRES_TUPLES_OK
                 [[if c = ''syskey'' then decimal (next_syskey db)
                   else if c = ''sysid'' then sysid else []]],
           db\<lparr>systems := systems db @ [(next_syskey db, sysid)]\<rparr>))"

definition pg_exec_prepared :: "pgdb \<Rightarrow> nat \<Rightarrow> string option list \<Rightarrow> PGresult option \<times> pgdb" where
  "pg_exec_prepared db n ps =
     (case prepared db of
        Some (INSERT_INTO t cols m key) \<Rightarrow>
          if t = ''systems'' then insert_system db cols ps key
          else
          (case column cols ps ''syskey'' of
             None \<Rightarrow> (failed, db)
           | Some k \<Rightarrow>
              (case column cols ps ''hostname'' of
                 None \<Rightarrow> (failed, db)
               | Some h \<Rightarrow>
                  (case column cols ps ''ipaddr'' of
                     None \<Rightarrow> (failed, db)
                   | Some ip \<Rightarrow>
                       (case key of
                          None \<Rightarrow> ok PGRES_COMMAND_OK []
                        | Some c \<Rightarrow>
                            ok PGRES_TUPLES_OK [[case column cols ps c of None \<Rightarrow> [] | Some v \<Rightarrow> v]],
                        db\<lparr>systems_hostname :=
                             systems_hostname db @ [(nat (atoi k), h, ip)]\<rparr>))))
      | _ \<Rightarrow> (failed, db))"

definition pg :: "(pgdb, report) env" where
  "pg =
     \<lparr>PQexec = pg_exec,
      PQprepare = pg_prepare,
      PQexecPrepared = pg_exec_prepared,
      pthread_mutex_lock = (\<lambda>s. s),
      pthread_mutex_unlock = (\<lambda>s. s),
      sqldataExtractContent = (\<lambda>v. Some (vcontent v)),
      parseToSQLdata = (\<lambda>x p. x p),
      sqldataGetValue = lookup_value,
      sqldataGetHostInfo = host_info\<rparr>"

subsection \<open>Documents and tables for the examples\<close>

definition field :: "int \<Rightarrow> string \<Rightarrow> xfield" where
  "field i name = \<lparr>fid = i, fname = name\<rparr>"

definition plain :: "int \<Rightarrow> string \<Rightarrow> xvalue" where
  "plain i c = \<lparr>vfid = Some i, vkind = Plain, vcontent = c\<rparr>"

definition sqldata ::
  "string \<Rightarrow> string option \<Rightarrow> xfield list \<Rightarrow> xvalue list list \<Rightarrow> sqldoc" where
  "sqldata table key fs recs =
     \<lparr>root = Some ''sqldata'', table_attr = Some table, key_attr = key,
      fields_node = Some fs, records_node = Some recs\<rparr>"

definition host_fields :: "xfield list" where
  "host_fields = [field 0 ''syskey'', field 1 ''hostname'', field 2 ''ipaddr'']"

definition empty_db :: pgdb where
  "empty_db = \<lparr>systems = [], systems_hostname = [], submissionqueue = [], prepared = None\<rparr>"

text \<open>A report of one system, and a report of one run.\<close>

definition host_report :: "string \<Rightarrow> string \<Rightarrow> string \<Rightarrow> report" where
  "host_report sysid hostname ipaddr p =
     (if prm_table p = ''systems''
        then Some (sqldata ''systems'' (Some ''syskey'') [field 0 ''sysid''] [[plain 0 sysid]])
      else if prm_table p = ''systems_hostname''
        then Some (sqldata ''systems_hostname'' None host_fields
                     [[plain 0 (decimal (nat (prm_syskey p))), plain 1 hostname,
                       plain 2 ipaddr]])
      else None)"

definition run_report :: report where
  "run_report p =
     (if prm_table p = ''rtevalruns''
        then Some (sqldata ''rtevalruns'' (Some ''rterid'') [field 0 ''syskey'']
                     [[plain 0 (decimal (nat (prm_syskey p)))]])
      else if prm_table p = ''rtevalruns_details''
        then Some (sqldata ''rtevalruns_details'' None [field 0 ''rterid'']
                     [[plain 0 (decimal (nat (prm_rterid p)))]])
      else None)"



section \<open>Properties\<close>

subsection \<open>The record loop\<close>

lemma insert_records_append:
  "insert_records E key idx n pre res s = (Inr (Some res1), s1) \<Longrightarrow>
   insert_records E key idx n (pre @ rest) res s = insert_records E key idx n rest res1 s1"
proof (induction pre arbitrary: res s)
  case Nil
  then show ?case by simp
next
  case (Cons r pre)
  then show ?case
    by (auto split: sum.splits prod.splits if_splits)
qed

lemma pgsql_INSERT_Some:
  assumes "pgsql_INSERT E dbc doc = (Inr (Some res), dbc')"
  obtains t fs recs dbres s0 where
    "root doc = Some ''sqldata''" "table_attr doc = Some t" "fields_node doc = Some fs"
    "records_node doc = Some recs"
    "PQprepare E dbc (insert_sql t fs (key_attr doc)) (length fs) = (dbres, s0)"
    "PQresultStatus dbres = PGRES_COMMAND_OK"
    "insert_records E (key_attr doc) (field_index fs) (length fs) recs eCreate_value_space s0
       = (Inr (Some res), dbc')"
  using assms unfolding pgsql_INSERT_def
  by (auto split: if_splits option.splits prod.splits)

lemma insert_records_prefix_ok:
  "insert_records E key idx n (pre @ rest) res0 s0 = (Inr (Some res), s') \<Longrightarrow>
   \<exists>res1 s1. insert_records E key idx n pre res0 s0 = (Inr (Some res1), s1)"
proof (induction pre arbitrary: res0 s0)
  case Nil
  then show ?case by simp
next
  case (Cons r pre)
  then show ?case
    by (auto split: sum.splits prod.splits if_splits)
qed

lemma insert_records_extends:
  "insert_records E key idx n recs res0 s0 = (Inr (Some res), s') \<Longrightarrow>
   \<exists>ext. res = res0 @ ext \<and> length ext = length recs"
proof (induction recs arbitrary: res0 s0)
  case Nil
  then show ?case by simp
next
  case (Cons r recs)
  then show ?case
    by (fastforce simp: eAdd_value_def split: sum.splits prod.splits if_splits)
qed

lemma insert_records_step:
  assumes run: "insert_records E key idx n recs res0 s0 = (Inr (Some res), s')"
    and k: "k < length recs"
  shows "\<exists>res_k s_k value_ar dbres s''.
           insert_records E key idx n (take k recs) res0 s0 = (Inr (Some res_k), s_k)
         \<and> record_values (sqldataExtractContent E) idx n 0 (recs ! k) (replicate n None)
             = Inr value_ar
         \<and> PQexecPrepared E s_k n value_ar = (dbres, s'')
         \<and> PQresultStatus dbres = expected_status key
         \<and> res ! (length res0 + k) = result_entry key dbres"
proof -
  have split: "recs = take k recs @ recs ! k # drop (Suc k) recs"
    using k by (simp add: id_take_nth_drop)
  then have run': "insert_records E key idx n (take k recs @ recs ! k # drop (Suc k) recs) res0 s0
      = (Inr (Some res), s')"
    using run by simp
  from insert_records_prefix_ok [OF run'] obtain res_k s_k where
    pre: "insert_records E key idx n (take k recs) res0 s0 = (Inr (Some res_k), s_k)"
    by blast
  from insert_records_extends [OF pre] k
  have len: "length res_k = length res0 + k" by auto
  from insert_records_append [OF pre] run'
  have rest: "insert_records E key idx n (recs ! k # drop (Suc k) recs) res_k s_k
      = (Inr (Some res), s')" by simp
  then obtain value_ar where
    v: "record_values (sqldataExtractContent E) idx n 0 (recs ! k) (replicate n None)
          = Inr value_ar"
    by (auto split: sum.splits)
  obtain dbres s'' where e: "PQexecPrepared E s_k n value_ar = (dbres, s'')"
    by (cases "PQexecPrepared E s_k n value_ar")
  from rest v e have st: "PQresultStatus dbres = expected_status key"
    by (auto split: if_splits)
  from rest v e st have
    "insert_records E key idx n (drop (Suc k) recs) (res_k @ [result_entry key dbres]) s''
       = (Inr (Some res), s')"
    by (simp add: eAdd_value_def)
  from insert_records_extends [OF this] len
  have "res ! (length res0 + k) = result_entry key dbres"
    by (auto simp: nth_append)
  with pre v e st show ?thesis by blast
qed






lemma atoi_int_range: "- 2147483648 \<le> atoi s \<and> atoi s \<le> 2147483647"
  by (simp add: atoi_def int_of_long_def)

lemma atoi_nullsafe_int_range:
  "- 2147483648 \<le> atoi_nullsafe str \<and> atoi_nullsafe str \<le> 2147483647"
  using atoi_int_range by (cases str) (simp_all add: atoi_nullsafe_def)

lemma atoi_examples:
  "atoi ''42'' = 42 \<and> atoi '' -7x'' = - 7 \<and> atoi ''2147483648'' = - 2147483648
   \<and> atoi ''4294967303'' = 7 \<and> atoi ''99999999999999999999'' = - 1"
  by (simp add: atoi_def strtol_def int_of_long_def isspace_def isdigit_def)

lemmas insert_defs = pgsql_INSERT_def insert_sql_def field_index_def PQresultStatus_def
  expected_status_def result_entry_def PQoidValue_def PQgetvalue_def eAdd_value_def
  eCreate_value_space_def decimal.simps

text \<open>
  C1. The claim: the value bound to parameter position j is the record's value whose
  field id equals the j-th declared field's id, also when the values arrive in another
  order. The code does not do this: it stores the i-th accepted value of the record in
  the slot numbered by the i-th declared field's id and never compares the value's own
  \<open>fid\<close> with anything. Here the fields are a (fid 0) and b (fid 1) and the record
  carries the value of b first: the statement is executed with $1 = B for column a and
  $2 = A for column b.
\<close>

theorem pgsql_INSERT_binds_by_arrival_order:
  "pgsql_INSERT (logged scripted)
     ([ok PGRES_COMMAND_OK [], ok PGRES_COMMAND_OK []], [])
     \<lparr>root = Some ''sqldata'', table_attr = Some ''t'', key_attr = None,
      fields_node = Some [\<lparr>fid = 0, fname = ''a''\<rparr>, \<lparr>fid = 1, fname = ''b''\<rparr>],
      records_node = Some [[\<lparr>vfid = Some 1, vkind = Plain, vcontent = ''B''\<rparr>,
                            \<lparr>vfid = Some 0, vkind = Plain, vcontent = ''A''\<rparr>]]\<rparr>
   = (Inr (Some [(''oid'', Some ''0'')]),
      ([], [Prepare (INSERT_INTO ''t'' [''a'', ''b''] 2 None) 2,
            ExecPrepared 2 [Some ''B'', Some ''A'']]))"
  by (simp add: pgsql_INSERT_def logged_def scripted_def answer_def ok_def insert_sql_def
      field_index_def PQresultStatus_def expected_status_def result_entry_def PQoidValue_def
      eAdd_value_def eCreate_value_space_def decimal.simps)

text \<open>
  C3. When the records before record k all execute with the expected status (run on
  their own they give a result list and leave the database in \<open>s1\<close>) and the execution
  of record k, from \<open>s1\<close>, comes back with another status, leaving the database in
  \<open>s2\<close>: \<open>pgsql_INSERT\<close> returns NULL, so nothing of the result list survives, and
  the state it leaves is \<open>s2\<close>. The records after k are never looked at, and no
  statement is issued after the failing one: what the earlier executions inserted is
  still there.
\<close>

theorem pgsql_INSERT_fail_fast:
  assumes pre: "pgsql_INSERT E dbc (doc\<lparr>records_node := Some pre\<rparr>) = (Inr (Some res), s1)"
    and fs: "fields_node doc = Some fs"
    and vals: "record_values (sqldataExtractContent E) (field_index fs) (length fs) 0 r
             (replicate (length fs) None) = Inr value_ar"
    and ex: "PQexecPrepared E s1 (length fs) value_ar = (dbres, s2)"
    and st: "PQresultStatus dbres \<noteq> expected_status (key_attr doc)"
  shows "pgsql_INSERT E dbc (doc\<lparr>records_node := Some (pre @ r # post)\<rparr>) = (Inr None, s2)"
proof -
  from pre obtain t fs' dbres0 s0 where
    d: "root doc = Some ''sqldata''" "table_attr doc = Some t" "fields_node doc = Some fs'"
    and p: "PQprepare E dbc (insert_sql t fs' (key_attr doc)) (length fs') = (dbres0, s0)"
      "PQresultStatus dbres0 = PGRES_COMMAND_OK"
    and l: "insert_records E (key_attr doc) (field_index fs') (length fs') pre
       eCreate_value_space s0 = (Inr (Some res), s1)"
    by (auto elim!: pgsql_INSERT_Some)
  from fs d have [simp]: "fs' = fs" by simp
  have "insert_records E (key_attr doc) (field_index fs) (length fs) (pre @ r # post)
       eCreate_value_space s0
     = insert_records E (key_attr doc) (field_index fs) (length fs) (r # post) res s1"
    using l by (simp add: insert_records_append)
  also have "\<dots> = (Inr None, s2)"
    using vals ex st by simp
  finally show ?thesis
    using d p by (simp add: pgsql_INSERT_def)
qed

text \<open>
  C7. Target status \<open>STAT_NEW\<close>: the result is 0 and the state is the one passed in,
  so no statement reached the database, whatever the submission id and whatever the
  queue holds.
\<close>

theorem db_update_submissionqueue_new:
  "db_update_submissionqueue E dbc submid STAT_NEW = (0, dbc)"
  by (simp add: db_update_submissionqueue_def)



text \<open>
  C5. When \<open>pgsql_INSERT\<close> returns a result list for a document with the records
  \<open>recs\<close>, the list has one entry per record. The statement prepared is the INSERT
  into the document's table with the declared field names, one parameter per field and,
  when the document has a key, \<open>RETURNING\<close> that key. Entry k belongs to record k:
  running the records before k leaves a state \<open>s_k\<close>, the prepared statement executed
  from \<open>s_k\<close> with the values of record k gives \<open>dbres\<close>, with rows when there is a
  key, and the entry is the first column of the first row of \<open>dbres\<close> (what
  \<open>RETURNING key\<close> gave back) under the key's name when the document has a key, and
  the OID of \<open>dbres\<close> in decimal under the name oid when it has none (the text 0 for
  the invalid OID 0 that a table without OIDs reports).
\<close>

theorem pgsql_INSERT_results:
  assumes run: "pgsql_INSERT E dbc doc = (Inr (Some res), dbc')"
    and fs: "fields_node doc = Some fs"
    and recs: "records_node doc = Some recs"
  shows "length res = length recs
   \<and> (\<exists>table dbres0 s0. table_attr doc = Some table
        \<and> PQprepare E dbc (INSERT_INTO table (map fname fs) (length fs) (key_attr doc))
              (length fs) = (dbres0, s0)
        \<and> PQresultStatus dbres0 = PGRES_COMMAND_OK
        \<and> pgsql_INSERT E dbc (doc\<lparr>records_node := Some []\<rparr>) = (Inr (Some []), s0))
   \<and> (\<forall>k<length recs. \<exists>res_k s_k value_ar dbres s'.
         pgsql_INSERT E dbc (doc\<lparr>records_node := Some (take k recs)\<rparr>) = (Inr (Some res_k), s_k)
       \<and> record_values (sqldataExtractContent E) (field_index fs) (length fs) 0 (recs ! k)
             (replicate (length fs) None) = Inr value_ar
       \<and> PQexecPrepared E s_k (length fs) value_ar = (dbres, s')
       \<and> PQresultStatus dbres =
           (case key_attr doc of Some key \<Rightarrow> PGRES_TUPLES_OK | None \<Rightarrow> PGRES_COMMAND_OK)
       \<and> res ! k =
           (case key_attr doc of
              Some key \<Rightarrow> (key, PQgetvalue dbres 0 0)
            | None \<Rightarrow> (''oid'', Some (decimal (PQoidValue dbres))))
       \<and> (key_attr doc = None \<and> PQoidValue dbres = 0 \<longrightarrow> res ! k = (''oid'', Some ''0'')))"
proof -
  from run obtain t fs' recs' dbres0 s0 where
    d: "root doc = Some ''sqldata''" "table_attr doc = Some t" "fields_node doc = Some fs'"
       "records_node doc = Some recs'"
    and p: "PQprepare E dbc (insert_sql t fs' (key_attr doc)) (length fs') = (dbres0, s0)"
      "PQresultStatus dbres0 = PGRES_COMMAND_OK"
    and l: "insert_records E (key_attr doc) (field_index fs') (length fs') recs'
       eCreate_value_space s0 = (Inr (Some res), dbc')"
    by (auto elim!: pgsql_INSERT_Some)
  from fs recs d have [simp]: "fs' = fs" "recs' = recs" by simp_all
  have len: "length res = length recs"
    using insert_records_extends [OF l] by (auto simp: eCreate_value_space_def)
  have prep: "\<exists>table dbres0 s0. table_attr doc = Some table
        \<and> PQprepare E dbc (INSERT_INTO table (map fname fs) (length fs) (key_attr doc))
              (length fs) = (dbres0, s0)
        \<and> PQresultStatus dbres0 = PGRES_COMMAND_OK
        \<and> pgsql_INSERT E dbc (doc\<lparr>records_node := Some []\<rparr>) = (Inr (Some []), s0)"
    using d p by (auto simp: pgsql_INSERT_def insert_sql_def eCreate_value_space_def)
  have each: "\<exists>res_k s_k value_ar dbres s'.
         pgsql_INSERT E dbc (doc\<lparr>records_node := Some (take k recs)\<rparr>) = (Inr (Some res_k), s_k)
       \<and> record_values (sqldataExtractContent E) (field_index fs) (length fs) 0 (recs ! k)
             (replicate (length fs) None) = Inr value_ar
       \<and> PQexecPrepared E s_k (length fs) value_ar = (dbres, s')
       \<and> PQresultStatus dbres =
           (case key_attr doc of Some key \<Rightarrow> PGRES_TUPLES_OK | None \<Rightarrow> PGRES_COMMAND_OK)
       \<and> res ! k =
           (case key_attr doc of
              Some key \<Rightarrow> (key, PQgetvalue dbres 0 0)
            | None \<Rightarrow> (''oid'', Some (decimal (PQoidValue dbres))))
       \<and> (key_attr doc = None \<and> PQoidValue dbres = 0 \<longrightarrow> res ! k = (''oid'', Some ''0''))"
    if k: "k < length recs" for k
  proof -
    from insert_records_step [OF l [simplified] k] obtain res_k s_k value_ar dbres s' where
      a: "insert_records E (key_attr doc) (field_index fs) (length fs) (take k recs)
            eCreate_value_space s0 = (Inr (Some res_k), s_k)"
      and b: "record_values (sqldataExtractContent E) (field_index fs) (length fs) 0 (recs ! k)
             (replicate (length fs) None) = Inr value_ar"
      and c: "PQexecPrepared E s_k (length fs) value_ar = (dbres, s')"
      and st: "PQresultStatus dbres = expected_status (key_attr doc)"
      and e: "res ! k = result_entry (key_attr doc) dbres"
      by (auto simp: eCreate_value_space_def)
    have a': "pgsql_INSERT E dbc (doc\<lparr>records_node := Some (take k recs)\<rparr>)
        = (Inr (Some res_k), s_k)"
      using d p a by (simp add: pgsql_INSERT_def)
    have st': "PQresultStatus dbres =
           (case key_attr doc of Some key \<Rightarrow> PGRES_TUPLES_OK | None \<Rightarrow> PGRES_COMMAND_OK)"
      using st by (simp add: expected_status_def split: option.splits)
    have e': "res ! k =
           (case key_attr doc of
              Some key \<Rightarrow> (key, PQgetvalue dbres 0 0)
            | None \<Rightarrow> (''oid'', Some (decimal (PQoidValue dbres))))"
      using e by (simp add: result_entry_def)
    have "key_attr doc = None \<and> PQoidValue dbres = 0 \<longrightarrow> res ! k = (''oid'', Some ''0'')"
      using e' by (simp add: decimal.simps)
    with a' b c st' e' show ?thesis by blast
  qed
  from len prep each show ?thesis by blast
qed

text \<open>
  C6. The queue lock. Let the SELECT for the first new job, issued after taking the lock,
  return rows. If it does not return exactly one row, the function returns a job marked
  \<open>jbNONE\<close>, which is not the NULL of a failure, and the calls were: lock, SELECT,
  unlock. If it returns one row, the calls were: lock, SELECT, UPDATE to
  \<open>STAT_ASSIGNED\<close>, unlock, whether the UPDATE succeeded or not; when the UPDATE
  failed (NULL, or a status other than \<open>PGRES_COMMAND_OK\<close>) the function returns NULL
  and no job, otherwise the job.
\<close>

theorem db_get_submissionqueue_job_lock:
  assumes sel: "PQexec E (pthread_mutex_lock E dbc) (SELECT_submissionqueue STAT_NEW) = (res, s1)"
    and ok: "PQresultStatus res = PGRES_TUPLES_OK"
  shows
   "(PQntuples res \<noteq> 1 \<longrightarrow>
       db_get_submissionqueue_job (logged E) (dbc, []) =
         (Inr (Some \<lparr>job_status = jbNONE, job_submid = 0, job_filename = []\<rparr>),
          (pthread_mutex_unlock E s1,
           [Lock, Exec (SELECT_submissionqueue STAT_NEW), Unlock])))
  \<and> (\<forall>filename submid ures s2.
        PQntuples res = 1 \<and> PQgetvalue res 0 1 = Some filename
        \<and> submid = nat (atoi_nullsafe (PQgetvalue res 0 0) mod 4294967296)
        \<and> PQexec E s1 (UPDATE_submissionqueue STAT_ASSIGNED no_stamp submid) = (ures, s2) \<longrightarrow>
        db_get_submissionqueue_job (logged E) (dbc, []) =
          (if ures = None \<or> PQresultStatus ures \<noteq> PGRES_COMMAND_OK then Inr None
           else Inr (Some \<lparr>job_status = jbAVAIL, job_submid = submid,
                           job_filename = take 4089 filename\<rparr>),
           (pthread_mutex_unlock E s2,
            [Lock, Exec (SELECT_submissionqueue STAT_NEW),
             Exec (UPDATE_submissionqueue STAT_ASSIGNED no_stamp submid), Unlock])))"
  using sel ok
  by (auto simp: db_get_submissionqueue_job_def db_update_submissionqueue_def logged_def)

text \<open>
  C8. \<open>db_register_rtevalrun\<close> returns a positive number r exactly when both inserts
  took place and each gave a result list of one entry: the insert of the rtevalruns
  document, whose entry is the rterid r, and then the insert of the rtevalruns_details
  document built for r. Whatever else it returns is -1, and what it returns fits the
  \<open>int\<close> of the C function.
\<close>

theorem db_register_rtevalrun_positive:
  "(fst (db_register_rtevalrun E dbc summaryxml syskey report_fname) = Inr r \<and> 0 < r
     \<longleftrightarrow>
    (\<exists>rtevalrun_d res1 s1 rtevalrundets_d res2 s2.
        parseToSQLdata E summaryxml
          \<lparr>prm_table = ''rtevalruns'', prm_syskey = syskey,
           prm_report_filename = report_fname, prm_rterid = 0\<rparr> = Some rtevalrun_d
      \<and> pgsql_INSERT E dbc rtevalrun_d = (Inr (Some res1), s1) \<and> eCount res1 = 1
      \<and> r = atoi_nullsafe (head_val res1) \<and> 0 < r
      \<and> parseToSQLdata E summaryxml
          \<lparr>prm_table = ''rtevalruns_details'', prm_syskey = 0,
           prm_report_filename = None, prm_rterid = r\<rparr> = Some rtevalrundets_d
      \<and> pgsql_INSERT E s1 rtevalrundets_d = (Inr (Some res2), s2) \<and> eCount res2 = 1))
   \<and> (fst (db_register_rtevalrun E dbc summaryxml syskey report_fname) = Inr r
        \<longrightarrow> 0 < r \<or> r = - 1)
   \<and> (fst (db_register_rtevalrun E dbc summaryxml syskey report_fname) = Inr r
        \<longrightarrow> r \<le> 2147483647)"
proof -
  have "r \<le> 2147483647"
    if "fst (db_register_rtevalrun E dbc summaryxml syskey report_fname) = Inr r"
    using that atoi_nullsafe_int_range
    by (auto simp: db_register_rtevalrun_def
        split: option.splits sum.splits prod.splits if_splits)
  then show ?thesis
    by (auto simp: db_register_rtevalrun_def
        split: option.splits sum.splits prod.splits if_splits)
qed

text \<open>
  C9. A well-formed document with no record: the statement is prepared, nothing else
  reaches the database, and the result is the empty list, or NULL when the preparation
  failed.
\<close>

theorem pgsql_INSERT_no_records:
  assumes "root doc = Some ''sqldata''" and "table_attr doc = Some table"
    and "fields_node doc = Some fs" and "records_node doc = Some []"
    and "PQprepare E dbc (insert_sql table fs (key_attr doc)) (length fs) = (dbres, dbc')"
  shows "pgsql_INSERT E dbc doc =
           (if PQresultStatus dbres = PGRES_COMMAND_OK then (Inr (Some []), dbc')
            else (Inr None, dbc'))
       \<and> snd (snd (pgsql_INSERT (logged E) (dbc, []) doc))
           = [Prepare (insert_sql table fs (key_attr doc)) (length fs)]"
  using assms
  by (simp add: pgsql_INSERT_def eCreate_value_space_def logged_def)

text \<open>
  C10. For a status other than \<open>STAT_NEW\<close> that the switch lists, the function
  returns 1 whenever the database answers the UPDATE with \<open>PGRES_COMMAND_OK\<close>; it
  never asks how many rows the UPDATE changed. On the database with tables, where an
  UPDATE that matches no row is answered so: if the queue has no row with this
  submission id, the function returns 1 and the database is as it was.
\<close>

theorem db_update_submissionqueue_no_row:
  assumes "st \<noteq> STAT_NEW" and "\<forall>n. st \<noteq> STAT_unlisted n"
  shows "(\<forall>r dbc'. PQexec E dbc (the (update_sql submid st)) = (Some r, dbc')
            \<and> resStatus r = PGRES_COMMAND_OK \<longrightarrow>
            db_update_submissionqueue E dbc submid st = (1, dbc'))
       \<and> ((\<forall>row \<in> set (submissionqueue db). fst row \<noteq> submid) \<longrightarrow>
            db_update_submissionqueue pg db submid st = (1, db))"
proof -
  obtain t where q: "update_sql submid st = Some (UPDATE_submissionqueue st t submid)"
    using assms by (cases st) auto
  have a: "db_update_submissionqueue E dbc submid st = (1, dbc')"
    if "PQexec E dbc (the (update_sql submid st)) = (Some r, dbc')"
      and "resStatus r = PGRES_COMMAND_OK" for r dbc'
    using that q by (simp add: db_update_submissionqueue_def PQresultStatus_def)
  have b: "db_update_submissionqueue pg db submid st = (1, db)"
    if none: "\<forall>row \<in> set (submissionqueue db). fst row \<noteq> submid"
  proof -
    have "map (set_status st t submid) (submissionqueue db) = submissionqueue db"
      using none by (intro map_idI) (auto simp: set_status_def)
    then show ?thesis
      using q
      by (simp add: db_update_submissionqueue_def pg_def pg_exec_def ok_def PQresultStatus_def)
  qed
  from a b show ?thesis by blast
qed

text \<open>
  C2, as the code has it. The sysid of the report has exactly one row in \<open>systems\<close>
  (the SELECT by sysid returns one row, whose syskey, read as an \<open>int\<close>, is
  \<open>syskey\<close>), and the lookup succeeds: the SELECT for the rows of
  \<open>systems_hostname\<close> whose hostname is the first 256 characters of the report's
  hostname and whose ipaddr is the first 64 characters of its ipaddr, under any syskey.
  If the lookup returns no row, the host document is inserted with \<open>pgsql_INSERT\<close>
  and the function returns \<open>syskey\<close> when the insert gives a result list (-1 when it
  gives NULL); if it returns a row, nothing more reaches the database and the function
  returns \<open>syskey\<close>. On neither path is the systems document inserted or any other
  statement issued.
\<close>

theorem db_register_system_known_sysid:
  assumes sysinfo: "parseToSQLdata E summaryxml
        \<lparr>prm_table = ''systems'', prm_syskey = 0, prm_report_filename = None,
         prm_rterid = 0\<rparr> = Some sysinfo_d"
    and sysid: "sqldataGetValue E sysinfo_d ''sysid'' 0 = Some sysid"
    and sel: "PQexec E dbc (SELECT_systems (take 256 sysid)) = (dbres, s1)"
    and one: "PQresultStatus dbres = PGRES_TUPLES_OK" "PQntuples dbres = 1"
    and syskey: "syskey = atoi_nullsafe (PQgetvalue dbres 0 0)"
    and host: "sqldataGetHostInfo E summaryxml syskey
        = (Some hostinfo_d, Some hostname, Some ipaddr)"
    and sel2: "PQexec E s1 (SELECT_systems_hostname (take 256 hostname) (take 64 ipaddr))
        = (dbres2, s2)"
    and ok2: "PQresultStatus dbres2 = PGRES_TUPLES_OK"
  shows "db_register_system E dbc summaryxml =
           (if PQntuples dbres2 = 0
            then (case pgsql_INSERT E s2 hostinfo_d of
                    (Inl f, s3) \<Rightarrow> (Inl f, s3)
                  | (Inr None, s3) \<Rightarrow> (Inr (- 1), s3)
                  | (Inr (Some dbdata), s3) \<Rightarrow> (Inr syskey, s3))
            else (Inr syskey, s2))
       \<and> - 2147483648 \<le> syskey \<and> syskey \<le> 2147483647"
  using assms atoi_nullsafe_int_range [of "PQgetvalue dbres 0 0"]
  by (auto simp: db_register_system_def register_host_def
      split: prod.splits sum.splits option.splits)

text \<open>
  C2, as stated, fails. System abc has the one row with syskey 7; the pair (node1,
  10.0.0.1) is bound to syskey 9 only, not to 7. The claim has a host row inserted for
  syskey 7; the code finds the pair, returns 7 and leaves every table as it was. The
  second run: the report's ipaddr has 65 characters and syskey 7 is bound to node1 with
  the first 64 of them; the pair of the report is in no row, yet the lookup, made with
  the first 64 characters, finds the row and nothing is inserted.
\<close>

theorem db_register_system_pair_bound_elsewhere:
  "db_register_system pg
     \<lparr>systems = [(7, ''abc''), (9, ''xyz'')],
      systems_hostname = [(9, ''node1'', ''10.0.0.1'')],
      submissionqueue = [], prepared = None\<rparr>
     (host_report ''abc'' ''node1'' ''10.0.0.1'')
   = (Inr 7,
      \<lparr>systems = [(7, ''abc''), (9, ''xyz'')],
       systems_hostname = [(9, ''node1'', ''10.0.0.1'')],
       submissionqueue = [], prepared = None\<rparr>)
   \<and> (7, ''node1'', ''10.0.0.1'') \<notin> set [(9 :: nat, ''node1'', ''10.0.0.1'')]
   \<and> db_register_system pg
     \<lparr>systems = [(7, ''abc'')],
      systems_hostname = [(7, ''node1'', ''1234567890123456789012345678901234567890123456789012345678901234'')],
      submissionqueue = [], prepared = None\<rparr>
     (host_report ''abc'' ''node1'' ''12345678901234567890123456789012345678901234567890123456789012345'')
   = (Inr 7,
      \<lparr>systems = [(7, ''abc'')],
       systems_hostname = [(7, ''node1'', ''1234567890123456789012345678901234567890123456789012345678901234'')],
       submissionqueue = [], prepared = None\<rparr>)
   \<and> (7, ''node1'', ''12345678901234567890123456789012345678901234567890123456789012345'')
       \<notin> set [(7 :: nat, ''node1'', ''1234567890123456789012345678901234567890123456789012345678901234'')]"
  by (simp add: db_register_system_def register_host_def host_report_def sqldata_def
      field_def plain_def host_fields_def insert_defs PQntuples_def atoi_nullsafe_def
      lookup_value_def host_info_def pg_def pg_prepare_def pg_exec_prepared_def pg_exec_def
      column_def ok_def failed_def atoi_def strtol_def int_of_long_def isspace_def isdigit_def)

subsection \<open>Concrete runs\<close>

text \<open>
  C2 on the database with tables: system abc is known under syskey 7 with the host node0;
  the report comes from node1, a pair no row has, and one host row is added for syskey 7.
  Then on scripted answers: the one row found has the syskey 4294967303, which the
  \<open>int\<close> holds as 7; the lookup finds the pair and the function returns 7.
\<close>

theorem db_register_system_known_sysid_witness:
  "db_register_system pg
     \<lparr>systems = [(7, ''abc'')], systems_hostname = [(7, ''node0'', ''10.0.0.1'')],
      submissionqueue = [], prepared = None\<rparr>
     (host_report ''abc'' ''node1'' ''10.0.0.1'')
   = (Inr 7,
      \<lparr>systems = [(7, ''abc'')],
       systems_hostname = [(7, ''node0'', ''10.0.0.1''), (7, ''node1'', ''10.0.0.1'')],
       submissionqueue = [],
       prepared = Some (INSERT_INTO ''systems_hostname''
                          [''syskey'', ''hostname'', ''ipaddr''] 3 None)\<rparr>)
   \<and> db_register_system scripted
     [ok PGRES_TUPLES_OK [[''4294967303'']], ok PGRES_TUPLES_OK [[''7'']]]
     (host_report ''abc'' ''node1'' ''10.0.0.1'') = (Inr 7, [])"
proof -
  let ?db = "\<lparr>systems = [(7, ''abc'')], systems_hostname = [(7, ''node0'', ''10.0.0.1'')],
      submissionqueue = [], prepared = None\<rparr>"
  let ?x = "host_report ''abc'' ''node1'' ''10.0.0.1''"
  let ?sys = "sqldata ''systems'' (Some ''syskey'') [field 0 ''sysid''] [[plain 0 ''abc'']]"
  let ?host = "sqldata ''systems_hostname'' None host_fields
                     [[plain 0 ''7'', plain 1 ''node1'', plain 2 ''10.0.0.1'']]"
  have a: "parseToSQLdata pg ?x
        \<lparr>prm_table = ''systems'', prm_syskey = 0, prm_report_filename = None,
         prm_rterid = 0\<rparr> = Some ?sys"
    by (simp add: pg_def host_report_def)
  have b: "sqldataGetValue pg ?sys ''sysid'' 0 = Some ''abc''"
    by (simp add: pg_def lookup_value_def sqldata_def field_def plain_def)
  have c: "PQexec pg ?db (SELECT_systems (take 256 ''abc'')) = (ok PGRES_TUPLES_OK [[''7'']], ?db)"
    by (simp add: pg_def pg_exec_def ok_def decimal.simps)
  have d: "PQresultStatus (ok PGRES_TUPLES_OK [[''7'']]) = PGRES_TUPLES_OK"
    "PQntuples (ok PGRES_TUPLES_OK [[''7'']]) = 1"
    "7 = atoi_nullsafe (PQgetvalue (ok PGRES_TUPLES_OK [[''7'']]) 0 0)"
    by (simp_all add: ok_def PQresultStatus_def PQntuples_def PQgetvalue_def atoi_nullsafe_def atoi_def strtol_def int_of_long_def isspace_def isdigit_def)
  have e: "sqldataGetHostInfo pg ?x 7 = (Some ?host, Some ''node1'', Some ''10.0.0.1'')"
    by (simp add: pg_def host_info_def lookup_value_def host_report_def sqldata_def field_def
        plain_def host_fields_def decimal.simps)
  have f: "PQexec pg ?db (SELECT_systems_hostname (take 256 ''node1'') (take 64 ''10.0.0.1''))
      = (ok PGRES_TUPLES_OK [], ?db)"
    by (simp add: pg_def pg_exec_def ok_def)
  have g: "PQresultStatus (ok PGRES_TUPLES_OK []) = PGRES_TUPLES_OK"
    by (simp add: ok_def PQresultStatus_def)
  have wrap: "db_register_system scripted
     [ok PGRES_TUPLES_OK [[''4294967303'']], ok PGRES_TUPLES_OK [[''7'']]]
     (host_report ''abc'' ''node1'' ''10.0.0.1'') = (Inr 7, [])"
    by (simp add: db_register_system_def register_host_def host_report_def sqldata_def
        field_def plain_def host_fields_def insert_defs PQntuples_def atoi_nullsafe_def
        lookup_value_def host_info_def scripted_def answer_def ok_def failed_def atoi_def
        strtol_def int_of_long_def isspace_def isdigit_def)
  from db_register_system_known_sysid [OF a b c d e f g]
  show ?thesis
    using wrap
    by (simp add: sqldata_def field_def plain_def host_fields_def insert_defs PQntuples_def pg_def
        pg_prepare_def pg_exec_prepared_def pg_exec_def column_def ok_def failed_def
        atoi_def strtol_def int_of_long_def isspace_def isdigit_def)
qed

text \<open>
  C3 on the database with tables: three host records, the second without an ipaddr. The
  first row stays inserted, the result is NULL, the third record is never executed.
\<close>

theorem pgsql_INSERT_fail_fast_witness:
  "pgsql_INSERT pg empty_db
     (sqldata ''systems_hostname'' None host_fields
        ([[plain 0 ''7'', plain 1 ''node1'', plain 2 ''10.0.0.1'']]
         @ [plain 0 ''7'', plain 1 ''node2'']
         # [[plain 0 ''7'', plain 1 ''node3'', plain 2 ''10.0.0.3'']]))
   = (Inr None,
      \<lparr>systems = [], systems_hostname = [(7, ''node1'', ''10.0.0.1'')], submissionqueue = [],
       prepared = Some (INSERT_INTO ''systems_hostname''
                          [''syskey'', ''hostname'', ''ipaddr''] 3 None)\<rparr>)"
proof -
  let ?doc = "sqldata ''systems_hostname'' None host_fields []"
  let ?s1 = "\<lparr>systems = [], systems_hostname = [(7, ''node1'', ''10.0.0.1'')],
       submissionqueue = [],
       prepared = Some (INSERT_INTO ''systems_hostname''
                          [''syskey'', ''hostname'', ''ipaddr''] 3 None)\<rparr>"
  have a: "pgsql_INSERT pg empty_db
       (?doc\<lparr>records_node := Some [[plain 0 ''7'', plain 1 ''node1'', plain 2 ''10.0.0.1'']]\<rparr>)
     = (Inr (Some [(''oid'', Some ''0'')]), ?s1)"
    by (simp add: sqldata_def field_def plain_def host_fields_def insert_defs empty_db_def pg_def
        pg_prepare_def pg_exec_prepared_def pg_exec_def column_def ok_def failed_def
        atoi_def strtol_def int_of_long_def isspace_def isdigit_def)
  have b: "fields_node ?doc = Some host_fields"
    by (simp add: sqldata_def)
  have c: "record_values (sqldataExtractContent pg) (field_index host_fields)
       (length host_fields) 0 [plain 0 ''7'', plain 1 ''node2'']
       (replicate (length host_fields) None) = Inr [Some ''7'', Some ''node2'', None]"
    by (simp add: sqldata_def field_def plain_def host_fields_def insert_defs empty_db_def pg_def
        pg_prepare_def pg_exec_prepared_def pg_exec_def column_def ok_def failed_def
        atoi_def strtol_def int_of_long_def isspace_def isdigit_def)
  have d: "PQexecPrepared pg ?s1 (length host_fields) [Some ''7'', Some ''node2'', None]
     = (failed, ?s1)"
    by (simp add: sqldata_def field_def plain_def host_fields_def pg_def pg_prepare_def
        pg_exec_prepared_def pg_exec_def column_def ok_def failed_def atoi_def strtol_def int_of_long_def isspace_def
        isdigit_def)
  have e: "PQresultStatus failed \<noteq> expected_status (key_attr ?doc)"
    by (simp add: sqldata_def failed_def PQresultStatus_def expected_status_def)
  from pgsql_INSERT_fail_fast [OF a b c d e,
      of "[[plain 0 ''7'', plain 1 ''node3'', plain 2 ''10.0.0.3'']]"]
  show ?thesis by (simp add: sqldata_def)
qed


text \<open>
  C5 on the database with tables: two systems inserted into the empty table with
  \<open>RETURNING syskey\<close>; the database generates the keys 1 and 2 and these are the
  entries. Without a key, on scripted answers: a row with OID 16385, then a row of a table
  without OIDs.
\<close>

theorem pgsql_INSERT_results_witness:
  "pgsql_INSERT pg empty_db
     (sqldata ''systems'' (Some ''syskey'') [field 0 ''sysid'']
        [[plain 0 ''abc123''], [plain 0 ''def456'']])
     = (Inr (Some [(''syskey'', Some ''1''), (''syskey'', Some ''2'')]),
        \<lparr>systems = [(1, ''abc123''), (2, ''def456'')], systems_hostname = [],
         submissionqueue = [],
         prepared = Some (INSERT_INTO ''systems'' [''sysid''] 1 (Some ''syskey''))\<rparr>)
   \<and> length [(''syskey'', Some ''1''), (''syskey'', Some ''2'')]
     = length [[plain 0 ''abc123''], [plain 0 ''def456'']]
   \<and> pgsql_INSERT scripted [ok PGRES_COMMAND_OK [], inserted 16385, inserted 0]
     (sqldata ''t'' None [field 0 ''a''] [[plain 0 ''x''], [plain 0 ''y'']])
     = (Inr (Some [(''oid'', Some ''16385''), (''oid'', Some ''0'')]), [])"
proof -
  let ?doc = "sqldata ''systems'' (Some ''syskey'') [field 0 ''sysid'']
        [[plain 0 ''abc123''], [plain 0 ''def456'']]"
  have run: "pgsql_INSERT pg empty_db ?doc
     = (Inr (Some [(''syskey'', Some ''1''), (''syskey'', Some ''2'')]),
        \<lparr>systems = [(1, ''abc123''), (2, ''def456'')], systems_hostname = [],
         submissionqueue = [],
         prepared = Some (INSERT_INTO ''systems'' [''sysid''] 1 (Some ''syskey''))\<rparr>)"
    by (simp add: sqldata_def field_def plain_def insert_defs empty_db_def pg_def
        pg_prepare_def pg_exec_prepared_def insert_system_def next_syskey_def column_def
        ok_def failed_def)
  have fs: "fields_node ?doc = Some [field 0 ''sysid'']"
    and recs: "records_node ?doc = Some [[plain 0 ''abc123''], [plain 0 ''def456'']]"
    by (simp_all add: sqldata_def)
  have oid: "pgsql_INSERT scripted [ok PGRES_COMMAND_OK [], inserted 16385, inserted 0]
     (sqldata ''t'' None [field 0 ''a''] [[plain 0 ''x''], [plain 0 ''y'']])
     = (Inr (Some [(''oid'', Some ''16385''), (''oid'', Some ''0'')]), [])"
    by (simp add: sqldata_def field_def plain_def insert_defs scripted_def answer_def ok_def
        inserted_def)
  from pgsql_INSERT_results [OF run fs recs, THEN conjunct1] run oid
  show ?thesis by simp
qed

text \<open>
  C6: a new job 5 whose UPDATE fails, the same job with the UPDATE succeeding, and an
  empty queue.
\<close>

theorem db_get_submissionqueue_job_lock_witness:
  "db_get_submissionqueue_job (logged scripted)
     ([ok PGRES_TUPLES_OK [[''5'', ''report.xml'']], failed], [])
   = (Inr None,
      ([], [Lock, Exec (SELECT_submissionqueue STAT_NEW),
            Exec (UPDATE_submissionqueue STAT_ASSIGNED no_stamp 5), Unlock]))
   \<and> db_get_submissionqueue_job (logged scripted)
     ([ok PGRES_TUPLES_OK [[''5'', ''report.xml'']], ok PGRES_COMMAND_OK []], [])
   = (Inr (Some \<lparr>job_status = jbAVAIL, job_submid = 5, job_filename = ''report.xml''\<rparr>),
      ([], [Lock, Exec (SELECT_submissionqueue STAT_NEW),
            Exec (UPDATE_submissionqueue STAT_ASSIGNED no_stamp 5), Unlock]))
   \<and> db_get_submissionqueue_job (logged scripted) ([ok PGRES_TUPLES_OK []], [])
   = (Inr (Some \<lparr>job_status = jbNONE, job_submid = 0, job_filename = []\<rparr>),
      ([], [Lock, Exec (SELECT_submissionqueue STAT_NEW), Unlock]))"
proof -
  let ?found = "ok PGRES_TUPLES_OK [[''5'', ''report.xml'']]"
  have s1: "PQexec scripted (pthread_mutex_lock scripted [?found, failed])
       (SELECT_submissionqueue STAT_NEW) = (?found, [failed])"
    and s2: "PQexec scripted (pthread_mutex_lock scripted [?found, ok PGRES_COMMAND_OK []])
       (SELECT_submissionqueue STAT_NEW) = (?found, [ok PGRES_COMMAND_OK []])"
    and s3: "PQexec scripted (pthread_mutex_lock scripted [ok PGRES_TUPLES_OK []])
       (SELECT_submissionqueue STAT_NEW) = (ok PGRES_TUPLES_OK [], [])"
    and t: "PQresultStatus ?found = PGRES_TUPLES_OK"
      "PQresultStatus (ok PGRES_TUPLES_OK []) = PGRES_TUPLES_OK"
    by (simp_all add: scripted_def answer_def ok_def PQresultStatus_def)
  from db_get_submissionqueue_job_lock [OF s1 t(1)]
       db_get_submissionqueue_job_lock [OF s2 t(1)]
       db_get_submissionqueue_job_lock [OF s3 t(2)]
  show ?thesis
    by (simp add: scripted_def answer_def ok_def failed_def PQresultStatus_def PQntuples_def
        PQgetvalue_def atoi_nullsafe_def atoi_def strtol_def int_of_long_def isspace_def isdigit_def)
qed

text \<open>
  C8: the run insert returns the rterid 42 and the details insert one entry; then the
  same with the details insert failing; then a run insert whose entry, 2147483648, does
  not fit the \<open>int\<close> rterid: it reads as a negative number, the second insert is not
  made and the result is -1.
\<close>

theorem db_register_rtevalrun_positive_witness:
  "fst (db_register_rtevalrun scripted
          [ok PGRES_COMMAND_OK [], ok PGRES_TUPLES_OK [[''42'']],
           ok PGRES_COMMAND_OK [], ok PGRES_COMMAND_OK []]
          run_report 7 (Some ''report.xml'')) = Inr 42
   \<and> fst (db_register_rtevalrun scripted
          [ok PGRES_COMMAND_OK [], ok PGRES_TUPLES_OK [[''42'']],
           ok PGRES_COMMAND_OK [], failed]
          run_report 7 (Some ''report.xml'')) = Inr (- 1)
   \<and> db_register_rtevalrun scripted
          [ok PGRES_COMMAND_OK [], ok PGRES_TUPLES_OK [[''2147483648'']],
           ok PGRES_COMMAND_OK [], ok PGRES_COMMAND_OK []]
          run_report 7 (Some ''report.xml'')
       = (Inr (- 1), [ok PGRES_COMMAND_OK [], ok PGRES_COMMAND_OK []])"
  using db_register_rtevalrun_positive [of scripted
          "[ok PGRES_COMMAND_OK [], ok PGRES_TUPLES_OK [[''42'']],
           ok PGRES_COMMAND_OK [], ok PGRES_COMMAND_OK []]"
          run_report 7 "Some ''report.xml''" 42, THEN conjunct1]
  by (simp add: db_register_rtevalrun_def run_report_def sqldata_def field_def plain_def
      insert_defs eCount_def head_val_def atoi_nullsafe_def atoi_def strtol_def
      int_of_long_def isspace_def isdigit_def scripted_def answer_def ok_def failed_def)

text \<open>C9: no record, with the preparation failing and with it succeeding.\<close>

theorem pgsql_INSERT_no_records_witness:
  "pgsql_INSERT scripted [failed] (sqldata ''t'' None [field 0 ''a''] []) = (Inr None, [])
   \<and> pgsql_INSERT scripted [ok PGRES_COMMAND_OK []] (sqldata ''t'' None [field 0 ''a''] [])
       = (Inr (Some []), [])
   \<and> snd (snd (pgsql_INSERT (logged scripted) ([ok PGRES_COMMAND_OK []], [])
         (sqldata ''t'' None [field 0 ''a''] [])))
       = [Prepare (INSERT_INTO ''t'' [''a''] 1 None) 1]"
proof -
  let ?doc = "sqldata ''t'' None [field 0 ''a''] []"
  have d: "root ?doc = Some ''sqldata''" "table_attr ?doc = Some ''t''"
    "fields_node ?doc = Some [field 0 ''a'']" "records_node ?doc = Some []"
    by (simp_all add: sqldata_def)
  have p1: "PQprepare scripted [failed] (insert_sql ''t'' [field 0 ''a''] (key_attr ?doc))
      (length [field 0 ''a'']) = (failed, [])"
    by (simp add: scripted_def answer_def)
  have p2: "PQprepare scripted [ok PGRES_COMMAND_OK []]
      (insert_sql ''t'' [field 0 ''a''] (key_attr ?doc))
      (length [field 0 ''a'']) = (ok PGRES_COMMAND_OK [], [])"
    by (simp add: scripted_def answer_def)
  from pgsql_INSERT_no_records [OF d p1] pgsql_INSERT_no_records [OF d p2]
  show ?thesis
    by (simp add: sqldata_def field_def insert_sql_def ok_def failed_def PQresultStatus_def)
qed

text \<open>C10: the queue holds submission 1 only; submission 2 is set to \<open>STAT_SUCCESS\<close>.\<close>

theorem db_update_submissionqueue_no_row_witness:
  "db_update_submissionqueue pg
     (empty_db\<lparr>submissionqueue := [(1, ''a.xml'', STAT_NEW, False, False)]\<rparr>) 2 STAT_SUCCESS
   = (1, empty_db\<lparr>submissionqueue := [(1, ''a.xml'', STAT_NEW, False, False)]\<rparr>)"
proof -
  have a: "STAT_SUCCESS \<noteq> STAT_NEW" and b: "\<forall>n. STAT_SUCCESS \<noteq> STAT_unlisted n"
    by simp_all
  from db_update_submissionqueue_no_row [OF a b, of pg _ 2
      "empty_db\<lparr>submissionqueue := [(1, ''a.xml'', STAT_NEW, False, False)]\<rparr>"]
  show ?thesis by simp
qed

end
